theory Spec2Isabelle
  imports
    Complex_Main
    "HOL-Library.Sublist"
    "HOL-Library.Multiset"
    "HOL-Library.Char_ord"
    "HOL-Library.List_Lexorder"
    "HOL-Library.Product_Lexorder"
    "HOL-Library.Log_Nat"
begin

section \<open>The record store of \<^verbatim>\<open>app.py\<close>\<close>

text \<open>
  The dashboard keeps its mentions in a data frame of eight columns. A data frame is
  modelled as the list of its rows, in index order; a column is the list of one field of
  every row (\<open>map sentiment df\<close> is \<^verbatim>\<open>df['sentiment']\<close>).

  \<^item> The string columns stay strings, as in the source: the sentiment of a row is the
    string \<^verbatim>\<open>'positive'\<close>, not a constructor.
  \<^item> \<^verbatim>\<open>polarity\<close> is a Python float. It is modelled by the rational number its
    decimal literal denotes; polarities are only compared and negated, never computed
    with.
  \<^item> \<^verbatim>\<open>date\<close> is a calendar day, modelled by its proleptic Gregorian ordinal
    (Python's \<^verbatim>\<open>date.toordinal()\<close>); 2024-06-01 is day 739038.
  \<^item> The column \<^verbatim>\<open>text\<close> is called \<open>text_col\<close> here.
\<close>

type_synonym date = int

record mention =
  text_col :: string
  sentiment :: string
  emotion :: string
  source :: string
  platform :: string
  search_term :: string
  polarity :: rat
  date :: date

type_synonym dataframe = "mention list"

text \<open>\<^verbatim>\<open>pd.date_range(start=s, periods=n, freq='D')\<close>: \<open>n\<close> consecutive days from \<open>s\<close>.\<close>

definition date_range_days :: "date \<Rightarrow> nat \<Rightarrow> date list" where
  "date_range_days start periods = map (\<lambda>i. start + int i) [0..<periods]"

definition sample_text :: "string list" where
  "sample_text =
    [''DBS Bank India has excellent customer service and quick loan approval'',
     ''DBS app crashes too often, very frustrating experience'',
     ''DBS net banking interface is user-friendly and secure'',
     ''DBS credit card has high interest rates, not recommended'',
     ''DBS mobile banking works smoothly, love the features'',
     ''Poor customer support from DBS Bank India branch'',
     ''DBS digibank is innovative and convenient for daily banking'',
     ''DBS loan process is too lengthy and complicated'',
     ''Great experience with DBS debit card internationally'',
     ''DBS bank charges are reasonable compared to other banks'']"

definition sample_sentiment :: "string list" where
  "sample_sentiment =
    [''positive'', ''negative'', ''positive'', ''negative'', ''positive'',
     ''negative'', ''positive'', ''negative'', ''positive'', ''neutral'']"

definition sample_emotion :: "string list" where
  "sample_emotion =
    [''happy'', ''angry'', ''satisfied'', ''disappointed'', ''happy'',
     ''angry'', ''satisfied'', ''disappointed'', ''happy'', ''neutral'']"

definition sample_source :: "string list" where
  "sample_source =
    [''News'', ''Reddit'', ''News'', ''Reddit'', ''News'',
     ''Reddit'', ''News'', ''Reddit'', ''News'', ''Reddit'']"

definition sample_platform :: "string list" where
  "sample_platform =
    [''Economic Times'', ''r/india'', ''Business Standard'', ''r/bangalore'',
     ''Financial Express'', ''r/mumbai'', ''Times of India'', ''r/delhi'',
     ''Hindu Business'', ''r/india'']"

definition sample_search_term :: "string list" where
  "sample_search_term =
    [''DBS Bank India'', ''DBS app'', ''DBS net banking'', ''DBS credit card'',
     ''DBS mobile banking'', ''DBS Bank India'', ''DBS digibank'', ''DBS loan'',
     ''DBS debit card'', ''DBS Bank India'']"

definition sample_polarity :: "rat list" where
  "sample_polarity = [8/10, -7/10, 6/10, -5/10, 7/10, -6/10, 8/10, -4/10, 9/10, 1/10]"

definition sample_date :: "date list" where
  "sample_date = date_range_days 739038 10"

text \<open>
  \<^verbatim>\<open>pd.DataFrame(sample_data)\<close>: row \<open>i\<close> takes entry \<open>i\<close> of every column. All eight
  columns have ten entries, so every index read is in range.
\<close>

definition load_data :: dataframe where
  "load_data =
    map (\<lambda>i. \<lparr>text_col = sample_text ! i, sentiment = sample_sentiment ! i,
              emotion = sample_emotion ! i, source = sample_source ! i,
              platform = sample_platform ! i, search_term = sample_search_term ! i,
              polarity = sample_polarity ! i, date = sample_date ! i\<rparr>)
      [0..<10]"

section \<open>Column operations\<close>

text \<open>Element-wise comparisons of a column with a value give a boolean column (a mask).\<close>

definition series_ge :: "date list \<Rightarrow> date \<Rightarrow> bool list" where
  "series_ge col v = map (\<lambda>x. v \<le> x) col"

definition series_le :: "date list \<Rightarrow> date \<Rightarrow> bool list" where
  "series_le col v = map (\<lambda>x. x \<le> v) col"

definition series_eq :: "string list \<Rightarrow> string \<Rightarrow> bool list" where
  "series_eq col v = map (\<lambda>x. x = v) col"

text \<open>\<^verbatim>\<open>col.isin(values)\<close>: membership of every entry in the selected values.\<close>

definition isin :: "string list \<Rightarrow> string list \<Rightarrow> bool list" where
  "isin col vals = map (\<lambda>x. x \<in> set vals) col"

text \<open>\<^verbatim>\<open>a & b\<close> on two masks.\<close>

definition mask_and :: "bool list \<Rightarrow> bool list \<Rightarrow> bool list" where
  "mask_and a b = map2 (\<and>) a b"

text \<open>\<^verbatim>\<open>df[mask]\<close>: the rows whose mask entry is true, in index order.\<close>

definition boolean_index :: "'a list \<Rightarrow> bool list \<Rightarrow> 'a list" where
  "boolean_index df msk = map fst (filter snd (zip df msk))"

text \<open>\<^verbatim>\<open>col.unique()\<close>: the distinct values in order of first appearance.\<close>

fun unique :: "'a list \<Rightarrow> 'a list" where
  "unique [] = []"
| "unique (x # xs) = x # filter (\<lambda>y. y \<noteq> x) (unique xs)"

section \<open>The filter of \<^verbatim>\<open>main\<close>\<close>

text \<open>
  \<open>date_range\<close> is the tuple the date widget returns: two dates for a complete range,
  one or none while the range is being picked. \<open>sources\<close> and \<open>products\<close> are the lists
  the two multi-selects return.
\<close>

definition df_filtered ::
    "date list \<Rightarrow> string list \<Rightarrow> string list \<Rightarrow> dataframe \<Rightarrow> dataframe" where
  "df_filtered date_range sources products df =
    (if length date_range = 2 then
       boolean_index df
         (mask_and
           (mask_and
             (mask_and (series_ge (map date df) (date_range ! 0))
                       (series_le (map date df) (date_range ! 1)))
             (isin (map source df) sources))
           (isin (map search_term df) products))
     else
       boolean_index df
         (mask_and (isin (map source df) sources)
                   (isin (map search_term df) products)))"

text \<open>The widgets' default values: the full date range and every source and search term.\<close>

definition default_date_range :: "dataframe \<Rightarrow> date list" where
  "default_date_range df = [Min (set (map date df)), Max (set (map date df))]"

definition default_sources :: "dataframe \<Rightarrow> string list" where
  "default_sources df = unique (map source df)"

definition default_products :: "dataframe \<Rightarrow> string list" where
  "default_products df = unique (map search_term df)"

section \<open>Float arithmetic\<close>

text \<open>
  A Python float is an IEEE 754 binary64 number. A finite float is modelled by the
  rational number it denotes, and an arithmetic operation by the exact operation followed
  by \<open>round_double\<close>, the rounding to the nearest float, ties to the even mantissa:
  \<^item> \<open>ilog2 x\<close> is the binary exponent of a positive \<open>x\<close>, the \<open>k\<close> with
    \<open>2^k \<le> x < 2^(k+1)\<close>;
  \<^item> a float has a mantissa of 53 bits, so \<open>x\<close> is rounded to a multiple of
    \<open>2^(ilog2 x - 52)\<close>, and of \<open>2^-1074\<close> (the smallest positive float) where that
    is larger (subnormal numbers);
  \<^item> overflow to infinity is not modelled: the only floats computed here are quotients
    of a count by a total not below it, and their products with 100.
\<close>

definition round_half_even :: "rat \<Rightarrow> int" where
  "round_half_even y =
    (let f = \<lfloor>y\<rfloor>; r = y - of_int f in
       if r < 1/2 then f else if 1/2 < r then f + 1 else if even f then f else f + 1)"

definition ilog2 :: "rat \<Rightarrow> int" where
  "ilog2 x = (if 1 \<le> x then bitlen \<lfloor>x\<rfloor> - 1 else - bitlen (\<lceil>1 / x\<rceil> - 1))"

definition round_double :: "rat \<Rightarrow> rat" where
  "round_double x =
    (if x = 0 then 0
     else let e = max (ilog2 \<bar>x\<bar> - 52) (- 1074)
          in of_int (round_half_even (x / 2 powi e)) * 2 powi e)"

text \<open>\<^verbatim>\<open>x * y\<close> on two floats; the integer \<^verbatim>\<open>100\<close> converts to the float 100 exactly.\<close>

definition float_mul :: "rat \<Rightarrow> rat \<Rightarrow> rat" where
  "float_mul x y = round_double (x * y)"

section \<open>The metric cards\<close>

text \<open>
  The four cards show the number of filtered rows and, for each sentiment, the number of
  rows with it and its share in percent. Python's \<^verbatim>\<open>a / b\<close> on two integers raises
  \<^verbatim>\<open>ZeroDivisionError\<close> on a zero divisor and otherwise returns the float nearest to
  the quotient, so the division is a partial operation here and a percentage is a result
  value; the source guards it with \<^verbatim>\<open>if total_mentions > 0 else 0\<close>.
\<close>

datatype py_error = ZeroDivisionError

definition truediv :: "nat \<Rightarrow> nat \<Rightarrow> py_error + rat" where
  "truediv a b =
    (if b = 0 then Inl ZeroDivisionError else Inr (round_double (of_nat a / of_nat b)))"

definition total_mentions :: "dataframe \<Rightarrow> nat" where
  "total_mentions dff = length dff"

text \<open>\<^verbatim>\<open>len(df_filtered[df_filtered['sentiment'] == s])\<close>\<close>

definition sentiment_count :: "string \<Rightarrow> dataframe \<Rightarrow> nat" where
  "sentiment_count s dff = length (boolean_index dff (series_eq (map sentiment dff) s))"

text \<open>\<^verbatim>\<open>(count / total_mentions * 100) if total_mentions > 0 else 0\<close>\<close>

definition sentiment_pct :: "string \<Rightarrow> dataframe \<Rightarrow> py_error + rat" where
  "sentiment_pct s dff =
    (if total_mentions dff > 0 then
       (case truediv (sentiment_count s dff) (total_mentions dff) of
          Inl e \<Rightarrow> Inl e
        | Inr q \<Rightarrow> Inr (float_mul q 100))
     else Inr 0)"

definition positive_count :: "dataframe \<Rightarrow> nat" where
  "positive_count dff = sentiment_count ''positive'' dff"

definition positive_pct :: "dataframe \<Rightarrow> py_error + rat" where
  "positive_pct dff = sentiment_pct ''positive'' dff"

definition negative_count :: "dataframe \<Rightarrow> nat" where
  "negative_count dff = sentiment_count ''negative'' dff"

definition negative_pct :: "dataframe \<Rightarrow> py_error + rat" where
  "negative_pct dff = sentiment_pct ''negative'' dff"

definition neutral_count :: "dataframe \<Rightarrow> nat" where
  "neutral_count dff = sentiment_count ''neutral'' dff"

definition neutral_pct :: "dataframe \<Rightarrow> py_error + rat" where
  "neutral_pct dff = sentiment_pct ''neutral'' dff"

section \<open>The two group-by tables\<close>

text \<open>
  \<^verbatim>\<open>df.groupby(keys).size().reset_index(name='count')\<close> with the library's defaults:
  one row per key observed in the frame, the keys in ascending order (a key of two columns
  is compared by the first column, then by the second), each with the number of frame rows
  that have it. Strings are compared lexicographically by character code, as Python does.
\<close>

definition groupby_size :: "('a \<Rightarrow> 'k::linorder) \<Rightarrow> 'a list \<Rightarrow> ('k \<times> nat) list" where
  "groupby_size key df =
    map (\<lambda>k. (k, length (filter (\<lambda>r. key r = k) df))) (sort (remdups (map key df)))"

text \<open>
  Both tables are computed only under \<^verbatim>\<open>if not df_filtered.empty\<close>; otherwise the
  page shows a notice and there is no table (\<open>None\<close>).
\<close>

definition daily_sentiment :: "dataframe \<Rightarrow> ((date \<times> string) \<times> nat) list option" where
  "daily_sentiment dff =
    (if dff \<noteq> [] then Some (groupby_size (\<lambda>r. (date r, sentiment r)) dff) else None)"

definition product_sentiment :: "dataframe \<Rightarrow> ((string \<times> string) \<times> nat) list option" where
  "product_sentiment dff =
    (if dff \<noteq> [] then Some (groupby_size (\<lambda>r. (search_term r, sentiment r)) dff) else None)"

section \<open>Top mentions by polarity\<close>

text \<open>
  \<^verbatim>\<open>df.nsmallest(n, col)\<close> and \<^verbatim>\<open>df.nlargest(n, col)\<close> with the library's default
  \<^verbatim>\<open>keep='first'\<close>: the first \<open>n\<close> rows of the frame sorted stably by the column,
  ascending respectively descending (the library sorts the negated column), so that rows
  with equal values stay in frame order. \<open>sort_key\<close> is a stable sort.
\<close>

definition nsmallest :: "nat \<Rightarrow> ('a \<Rightarrow> rat) \<Rightarrow> 'a list \<Rightarrow> 'a list" where
  "nsmallest n col df = take n (sort_key col df)"

definition nlargest :: "nat \<Rightarrow> ('a \<Rightarrow> rat) \<Rightarrow> 'a list \<Rightarrow> 'a list" where
  "nlargest n col df = take n (sort_key (\<lambda>r. - col r) df)"

text \<open>
  The two lists of the page:
  \<^verbatim>\<open>df_filtered[df_filtered['sentiment'] == 'positive'].nlargest(3, 'polarity')\<close> and
  \<^verbatim>\<open>df_filtered[df_filtered['sentiment'] == 'negative'].nsmallest(3, 'polarity')\<close>.
\<close>

definition positive_posts :: "dataframe \<Rightarrow> dataframe" where
  "positive_posts dff =
    nlargest 3 polarity (boolean_index dff (series_eq (map sentiment dff) ''positive''))"

definition negative_posts :: "dataframe \<Rightarrow> dataframe" where
  "negative_posts dff =
    nsmallest 3 polarity (boolean_index dff (series_eq (map sentiment dff) ''negative''))"

text \<open>
  The same selection with the sentiment, the number of rows and the direction as
  parameters; the two lists above are its instances for positive, 3, largest and for
  negative, 3, smallest.
\<close>

datatype direction = Dmax | Dmin

definition top_k_by_polarity :: "dataframe \<Rightarrow> string \<Rightarrow> nat \<Rightarrow> direction \<Rightarrow> dataframe" where
  "top_k_by_polarity records s k d =
    (case d of
       Dmax \<Rightarrow> nlargest k polarity (boolean_index records (series_eq (map sentiment records) s))
     | Dmin \<Rightarrow> nsmallest k polarity (boolean_index records (series_eq (map sentiment records) s)))"

section \<open>Basic facts about masks\<close>

lemma boolean_index_map: "boolean_index df (map P df) = filter P df"
  unfolding boolean_index_def by (induction df) simp_all

lemma mask_and_map: "mask_and (map P xs) (map Q xs) = map (\<lambda>x. P x \<and> Q x) xs"
  unfolding mask_and_def by (induction xs) simp_all

lemma series_ge_map: "series_ge (map f df) v = map (\<lambda>r. v \<le> f r) df"
  by (simp add: series_ge_def)

lemma series_le_map: "series_le (map f df) v = map (\<lambda>r. f r \<le> v) df"
  by (simp add: series_le_def)

lemma series_eq_map: "series_eq (map f df) v = map (\<lambda>r. f r = v) df"
  by (simp add: series_eq_def)

lemma isin_map: "isin (map f df) vals = map (\<lambda>r. f r \<in> set vals) df"
  by (simp add: isin_def)

lemmas mask_simps =
  series_ge_map series_le_map series_eq_map isin_map mask_and_map boolean_index_map

lemma df_filtered_two:
  "df_filtered [lo, hi] sources products df =
     filter (\<lambda>r. lo \<le> date r \<and> date r \<le> hi \<and> source r \<in> set sources
                 \<and> search_term r \<in> set products) df"
  by (simp add: df_filtered_def mask_simps conj_assoc)

lemma df_filtered_other:
  "length date_range \<noteq> 2 \<Longrightarrow>
   df_filtered date_range sources products df =
     filter (\<lambda>r. source r \<in> set sources \<and> search_term r \<in> set products) df"
  by (simp add: df_filtered_def mask_simps)

lemma df_filtered_filter:
  "df_filtered date_range sources products df =
     filter (\<lambda>r. (length date_range = 2 \<longrightarrow>
                    date_range ! 0 \<le> date r \<and> date r \<le> date_range ! 1)
                 \<and> source r \<in> set sources \<and> search_term r \<in> set products) df"
  by (simp add: df_filtered_def mask_simps conj_assoc)

lemma load_data_rows:
  "load_data =
    [\<lparr>text_col = ''DBS Bank India has excellent customer service and quick loan approval'',
      sentiment = ''positive'', emotion = ''happy'', source = ''News'',
      platform = ''Economic Times'', search_term = ''DBS Bank India'',
      polarity = 8/10, date = 739038\<rparr>,
     \<lparr>text_col = ''DBS app crashes too often, very frustrating experience'',
      sentiment = ''negative'', emotion = ''angry'', source = ''Reddit'',
      platform = ''r/india'', search_term = ''DBS app'',
      polarity = -7/10, date = 739039\<rparr>,
     \<lparr>text_col = ''DBS net banking interface is user-friendly and secure'',
      sentiment = ''positive'', emotion = ''satisfied'', source = ''News'',
      platform = ''Business Standard'', search_term = ''DBS net banking'',
      polarity = 6/10, date = 739040\<rparr>,
     \<lparr>text_col = ''DBS credit card has high interest rates, not recommended'',
      sentiment = ''negative'', emotion = ''disappointed'', source = ''Reddit'',
      platform = ''r/bangalore'', search_term = ''DBS credit card'',
      polarity = -5/10, date = 739041\<rparr>,
     \<lparr>text_col = ''DBS mobile banking works smoothly, love the features'',
      sentiment = ''positive'', emotion = ''happy'', source = ''News'',
      platform = ''Financial Express'', search_term = ''DBS mobile banking'',
      polarity = 7/10, date = 739042\<rparr>,
     \<lparr>text_col = ''Poor customer support from DBS Bank India branch'',
      sentiment = ''negative'', emotion = ''angry'', source = ''Reddit'',
      platform = ''r/mumbai'', search_term = ''DBS Bank India'',
      polarity = -6/10, date = 739043\<rparr>,
     \<lparr>text_col = ''DBS digibank is innovative and convenient for daily banking'',
      sentiment = ''positive'', emotion = ''satisfied'', source = ''News'',
      platform = ''Times of India'', search_term = ''DBS digibank'',
      polarity = 8/10, date = 739044\<rparr>,
     \<lparr>text_col = ''DBS loan process is too lengthy and complicated'',
      sentiment = ''negative'', emotion = ''disappointed'', source = ''Reddit'',
      platform = ''r/delhi'', search_term = ''DBS loan'',
      polarity = -4/10, date = 739045\<rparr>,
     \<lparr>text_col = ''Great experience with DBS debit card internationally'',
      sentiment = ''positive'', emotion = ''happy'', source = ''News'',
      platform = ''Hindu Business'', search_term = ''DBS debit card'',
      polarity = 9/10, date = 739046\<rparr>,
     \<lparr>text_col = ''DBS bank charges are reasonable compared to other banks'',
      sentiment = ''neutral'', emotion = ''neutral'', source = ''Reddit'',
      platform = ''r/india'', search_term = ''DBS Bank India'',
      polarity = 1/10, date = 739047\<rparr>]"
  unfolding load_data_def sample_text_def sample_sentiment_def sample_emotion_def
    sample_source_def sample_platform_def sample_search_term_def sample_polarity_def
    sample_date_def date_range_days_def
  by (simp add: upt_rec)

section \<open>Counting rows\<close>

lemma sentiment_count_filter:
  "sentiment_count s dff = length (filter (\<lambda>r. sentiment r = s) dff)"
  by (simp add: sentiment_count_def mask_simps)

lemma three_way_count:
  "\<forall>r\<in>set xs. f r = a \<or> f r = b \<or> f r = c \<Longrightarrow> a \<noteq> b \<Longrightarrow> a \<noteq> c \<Longrightarrow> b \<noteq> c \<Longrightarrow>
   length (filter (\<lambda>r. f r = a) xs) + length (filter (\<lambda>r. f r = b) xs)
     + length (filter (\<lambda>r. f r = c) xs) = length xs"
  by (induction xs) auto

lemma sum_indicator:
  "distinct ks \<Longrightarrow> sum_list (map (\<lambda>k. if a = k then 1 else 0) ks) = (if a \<in> set ks then 1 else (0::nat))"
  by (induction ks) auto

lemma sum_count_keys:
  "distinct ks \<Longrightarrow> key ` set df \<subseteq> set ks \<Longrightarrow>
   (\<Sum>k\<leftarrow>ks. length (filter (\<lambda>r. key r = k) df)) = length df"
proof (induction df)
  case Nil
  then show ?case by simp
next
  case (Cons x xs)
  have "(\<Sum>k\<leftarrow>ks. length (filter (\<lambda>r. key r = k) (x # xs)))
      = (\<Sum>k\<leftarrow>ks. (if key x = k then 1 else 0) + length (filter (\<lambda>r. key r = k) xs))"
    by (rule arg_cong [where f = sum_list], rule map_cong) auto
  also have "\<dots> = (\<Sum>k\<leftarrow>ks. if key x = k then 1 else 0)
                  + (\<Sum>k\<leftarrow>ks. length (filter (\<lambda>r. key r = k) xs))"
    by (simp add: sum_list_addf)
  also have "\<dots> = 1 + length xs"
    using Cons by (simp add: sum_indicator)
  finally show ?case by simp
qed

lemma groupby_size_keys:
  "map fst (groupby_size key df) = sort (remdups (map key df))"
  by (simp add: groupby_size_def comp_def)

lemma groupby_size_sum:
  "sum_list (map snd (groupby_size key df)) = length df"
proof -
  have "sum_list (map snd (groupby_size key df))
      = (\<Sum>k\<leftarrow>sort (remdups (map key df)). length (filter (\<lambda>r. key r = k) df))"
    by (simp add: groupby_size_def comp_def)
  also have "\<dots> = length df"
    by (rule sum_count_keys) simp_all
  finally show ?thesis .
qed

lemma groupby_size_row:
  "(k, n) \<in> set (groupby_size key df) \<longleftrightarrow>
     k \<in> key ` set df \<and> n = length (filter (\<lambda>r. key r = k) df)"
  by (auto simp: groupby_size_def)

lemma groupby_size_pos:
  assumes "row \<in> set (groupby_size key df)"
  shows "0 < snd row"
proof -
  obtain k n where row: "row = (k, n)" by (cases row)
  with assms have "k \<in> key ` set df" and n: "n = length (filter (\<lambda>r. key r = k) df)"
    by (simp_all add: groupby_size_row)
  then obtain r where "r \<in> set df" "key r = k" by auto
  then have "r \<in> set (filter (\<lambda>r. key r = k) df)" by simp
  then have "filter (\<lambda>r. key r = k) df \<noteq> []" by (metis empty_iff empty_set)
  with n row show ?thesis by simp
qed

lemma groupby_size_strict:
  "sorted_wrt (<) (map fst (groupby_size key df))"
  by (simp add: groupby_size_keys strict_sorted_iff)

lemma groupby_size_lex:
  fixes key :: "'a \<Rightarrow> ('b::linorder \<times> 'c::linorder)"
  shows "sorted_wrt (\<lambda>a b. fst a < fst b \<or> (fst a = fst b \<and> snd a < snd b))
           (map fst (groupby_size key df))"
  using groupby_size_strict [of key df]
  by (rule sorted_wrt_mono_rel [rotated]) (auto simp: less_prod_def')

section \<open>Sorting and taking a prefix\<close>

lemma take_mset_sub: "mset (take k ys) \<subseteq># mset ys"
proof -
  have "mset ys = mset (take k ys) + mset (drop k ys)"
    by (metis append_take_drop_id mset_append)
  then show ?thesis by simp
qed

lemma take_mset_diff: "mset ys - mset (take k ys) = mset (drop k ys)"
proof -
  have "mset ys = mset (take k ys) + mset (drop k ys)"
    by (metis append_take_drop_id mset_append)
  then show ?thesis by simp
qed

lemma sorted_take_drop:
  assumes "sorted (map f ys)" "x \<in> set (take k ys)" "y \<in> set (drop k ys)"
  shows "f x \<le> f y"
proof -
  have "sorted (map f (take k ys @ drop k ys))" using assms(1) by simp
  then show ?thesis using assms(2,3)
    unfolding map_append sorted_append by auto
qed

lemma filter_take_prefix: "prefix (filter P (take k ys)) (filter P ys)"
proof -
  have "filter P ys = filter P (take k ys) @ filter P (drop k ys)"
    by (metis append_take_drop_id filter_append)
  then show ?thesis by (simp add: prefix_def)
qed

lemma qualifying: "boolean_index records (series_eq (map sentiment records) s)
   = filter (\<lambda>r. sentiment r = s) records"
  by (simp add: mask_simps)

lemma nsmallest_length: "length (nsmallest k col df) = min k (length df)"
  by (simp add: nsmallest_def)

lemma nlargest_length: "length (nlargest k col df) = min k (length df)"
  by (simp add: nlargest_def)

lemma nsmallest_sorted: "sorted_wrt (\<lambda>a b. col a \<le> col b) (nsmallest k col df)"
proof -
  have "sorted (map col (sort_key col df))" by simp
  then have "sorted_wrt (\<lambda>a b. col a \<le> col b) (sort_key col df)"
    by (simp only: sorted_map)
  then show ?thesis unfolding nsmallest_def by (rule sorted_wrt_take)
qed

lemma nlargest_sorted: "sorted_wrt (\<lambda>a b. col b \<le> col a) (nlargest k col df)"
proof -
  have "sorted (map (\<lambda>r. - col r) (sort_key (\<lambda>r. - col r) df))" by simp
  then have "sorted_wrt (\<lambda>a b. - col a \<le> - col b) (sort_key (\<lambda>r. - col r) df)"
    by (simp only: sorted_map)
  then have "sorted_wrt (\<lambda>a b. col b \<le> col a) (sort_key (\<lambda>r. - col r) df)"
    by simp
  then show ?thesis unfolding nlargest_def by (rule sorted_wrt_take)
qed

lemma nsmallest_mset: "mset (nsmallest k col df) \<subseteq># mset df"
  using take_mset_sub [of k "sort_key col df"] by (simp add: nsmallest_def)

lemma nlargest_mset: "mset (nlargest k col df) \<subseteq># mset df"
  using take_mset_sub [of k "sort_key (\<lambda>r. - col r) df"] by (simp add: nlargest_def)

lemma nsmallest_rest:
  assumes "x \<in># mset df - mset (nsmallest k col df)" "y \<in> set (nsmallest k col df)"
  shows "col y \<le> col x"
proof -
  have "mset df - mset (nsmallest k col df) = mset (drop k (sort_key col df))"
    using take_mset_diff [of "sort_key col df" k] by (simp add: nsmallest_def)
  with assms(1) have x: "x \<in> set (drop k (sort_key col df))" by simp
  have y: "y \<in> set (take k (sort_key col df))" using assms(2) by (simp add: nsmallest_def)
  have s: "sorted (map col (sort_key col df))" by simp
  show ?thesis by (rule sorted_take_drop [OF s y x])
qed

lemma nlargest_rest:
  assumes "x \<in># mset df - mset (nlargest k col df)" "y \<in> set (nlargest k col df)"
  shows "col x \<le> col y"
proof -
  let ?g = "\<lambda>r. - col r"
  have "mset df - mset (nlargest k col df) = mset (drop k (sort_key ?g df))"
    using take_mset_diff [of "sort_key ?g df" k] by (simp add: nlargest_def)
  with assms(1) have x: "x \<in> set (drop k (sort_key ?g df))" by simp
  have y: "y \<in> set (take k (sort_key ?g df))" using assms(2) by (simp add: nlargest_def)
  have s: "sorted (map ?g (sort_key ?g df))" by simp
  have "?g y \<le> ?g x" by (rule sorted_take_drop [OF s y x])
  then show ?thesis by simp
qed

lemma nsmallest_stable:
  "prefix (filter (\<lambda>r. col r = p) (nsmallest k col df)) (filter (\<lambda>r. col r = p) df)"
  using filter_take_prefix [of "\<lambda>r. col r = p" k "sort_key col df"]
  by (simp add: nsmallest_def sort_key_stable)

lemma nlargest_stable:
  "prefix (filter (\<lambda>r. col r = p) (nlargest k col df)) (filter (\<lambda>r. col r = p) df)"
proof -
  let ?g = "\<lambda>r. - col r"
  have eq: "(\<lambda>r. col r = p) = (\<lambda>r. ?g r = - p)" by auto
  have "filter (\<lambda>r. ?g r = - p) (sort_key ?g df) = filter (\<lambda>r. ?g r = - p) df"
    by (rule sort_key_stable)
  then show ?thesis
    using filter_take_prefix [of "\<lambda>r. col r = p" k "sort_key ?g df"]
    unfolding nlargest_def eq by simp
qed

section \<open>The sample data under the default and the Reddit selection\<close>

lemma load_data_defaults:
  "default_date_range load_data = [739038, 739047]"
  "default_sources load_data = [''News'', ''Reddit'']"
  "default_products load_data =
     [''DBS Bank India'', ''DBS app'', ''DBS net banking'', ''DBS credit card'',
      ''DBS mobile banking'', ''DBS digibank'', ''DBS loan'', ''DBS debit card'']"
  by (simp_all add: default_date_range_def default_sources_def default_products_def
        load_data_rows)

lemma reddit_view:
  "df_filtered (default_date_range load_data) [''Reddit''] (default_products load_data)
       load_data
     = [load_data ! 1, load_data ! 3, load_data ! 5, load_data ! 7, load_data ! 9]"
  unfolding load_data_defaults df_filtered_two
  by (simp add: load_data_rows)

lemma default_view:
  "df_filtered (default_date_range load_data) (default_sources load_data)
       (default_products load_data) load_data = load_data"
  unfolding load_data_defaults df_filtered_two
  by (simp add: load_data_rows)

lemma load_data_sentiments:
  "set (map sentiment load_data) \<subseteq> {''positive'', ''negative'', ''neutral''}"
  by (simp add: load_data_rows)

section \<open>The rounding error of a float operation\<close>

lemma round_half_even_err: "\<bar>of_int (round_half_even y) - y\<bar> \<le> 1/2"
proof -
  define f where "f = \<lfloor>y\<rfloor>"
  define r where "r = y - of_int f"
  have r: "0 \<le> r" "r < 1" unfolding r_def f_def by linarith+
  have y: "y = of_int f + r" by (simp add: r_def)
  have rhe: "round_half_even y =
      (if r < 1/2 then f else if 1/2 < r then f + 1 else if even f then f else f + 1)"
    by (simp add: round_half_even_def Let_def f_def r_def)
  consider "r < 1/2" | "1/2 < r" | "r = 1/2" by linarith
  then show ?thesis
  proof cases
    case 1
    then have "round_half_even y = f" by (simp add: rhe)
    then have "of_int (round_half_even y) - y = - r" by (simp add: r_def)
    then show ?thesis using r 1 by simp
  next
    case 2
    then have "round_half_even y = f + 1" by (simp add: rhe)
    then have "of_int (round_half_even y) - y = 1 - r" by (simp add: r_def)
    then show ?thesis using r 2 by simp
  next
    case 3
    then have "round_half_even y = f \<or> round_half_even y = f + 1" by (simp add: rhe)
    then have "of_int (round_half_even y) - y = - r \<or> of_int (round_half_even y) - y = 1 - r"
      by (auto simp: r_def)
    then show ?thesis using 3 by auto
  qed
qed

lemma ilog2_bounds_ge1:
  assumes "1 \<le> x"
  shows "2 powi (ilog2 x) \<le> x \<and> x < 2 powi (ilog2 x + 1)"
proof -
  let ?n = "\<lfloor>x\<rfloor>"
  have n: "0 < ?n" using assms by linarith
  have b: "2 ^ nat (bitlen ?n - 1) \<le> ?n" "?n < 2 ^ nat (bitlen ?n)"
    using bitlen_bounds [OF n] by simp_all
  have k: "1 \<le> bitlen ?n" using n bitlen_eq_zero_iff [of ?n] bitlen_nonneg [of ?n] by linarith
  have "(2::rat) ^ nat (bitlen ?n - 1) = of_int (2 ^ nat (bitlen ?n - 1))" by simp
  also have "\<dots> \<le> of_int ?n" using b(1) by (simp only: of_int_le_iff)
  also have "\<dots> \<le> x" by simp
  finally have lo: "(2::rat) ^ nat (bitlen ?n - 1) \<le> x" .
  have "?n + 1 \<le> 2 ^ nat (bitlen ?n)" using b(2) by simp
  then have "(of_int (?n + 1) :: rat) \<le> of_int (2 ^ nat (bitlen ?n))"
    by (simp only: of_int_le_iff)
  moreover have "x < of_int (?n + 1)" by simp linarith
  ultimately have hi: "x < (2::rat) ^ nat (bitlen ?n)" by simp
  have e1: "(2::rat) powi (bitlen ?n - 1) = 2 ^ nat (bitlen ?n - 1)"
    using k by (simp add: power_int_def)
  have e2: "(2::rat) powi (bitlen ?n - 1 + 1) = 2 ^ nat (bitlen ?n)"
    using k by (simp add: power_int_def)
  show ?thesis using assms lo hi e1 e2 by (simp add: ilog2_def)
qed

lemma ilog2_bounds_lt1:
  assumes "0 < x" "x < 1"
  shows "2 powi (ilog2 x) \<le> x \<and> x < 2 powi (ilog2 x + 1)"
proof -
  define z where "z = 1 / x"
  define m where "m = \<lceil>z\<rceil> - 1"
  have z: "1 < z" using assms by (simp add: z_def)
  have m: "0 < m" unfolding m_def using z by linarith
  have mz: "of_int m < z" "z \<le> of_int (m + 1)" unfolding m_def by linarith+
  have b: "2 ^ nat (bitlen m - 1) \<le> m" "m < 2 ^ nat (bitlen m)"
    using bitlen_bounds [OF m] by simp_all
  have k: "1 \<le> bitlen m" using m bitlen_eq_zero_iff [of m] bitlen_nonneg [of m] by linarith
  have "m + 1 \<le> 2 ^ nat (bitlen m)" using b(2) by simp
  then have "(of_int (m + 1) :: rat) \<le> of_int (2 ^ nat (bitlen m))"
    by (simp only: of_int_le_iff)
  with mz(2) have "z \<le> of_int (2 ^ nat (bitlen m))" by (rule order_trans)
  then have zhi: "z \<le> 2 ^ nat (bitlen m)" by simp
  have "(of_int (2 ^ nat (bitlen m - 1)) :: rat) \<le> of_int m"
    using b(1) by (simp only: of_int_le_iff)
  then have "of_int (2 ^ nat (bitlen m - 1)) < z" using mz(1) by (rule le_less_trans)
  then have zlo: "2 ^ nat (bitlen m - 1) < z" by simp
  have x: "x = 1 / z" by (simp add: z_def)
  have zpos: "0 < z" using z by linarith
  have lo: "1 / 2 ^ nat (bitlen m) \<le> x"
    unfolding x using zhi zpos by (simp add: field_simps)
  have hi: "x < 1 / 2 ^ nat (bitlen m - 1)"
    unfolding x using zlo zpos by (simp add: field_simps)
  have e1: "(2::rat) powi (- bitlen m) = 1 / 2 ^ nat (bitlen m)"
    using k by (simp add: power_int_def field_simps)
  have e2: "(2::rat) powi (- bitlen m + 1) = 1 / 2 ^ nat (bitlen m - 1)"
  proof -
    have "- bitlen m + 1 = - (bitlen m - 1)" by simp
    then show ?thesis using k by (simp add: power_int_def field_simps)
  qed
  have "ilog2 x = - bitlen m" using assms by (simp add: ilog2_def m_def z_def)
  then show ?thesis using lo hi e1 e2 by simp
qed

lemma ilog2_bounds:
  "0 < x \<Longrightarrow> 2 powi (ilog2 x) \<le> x \<and> x < 2 powi (ilog2 x + 1)"
  using ilog2_bounds_ge1 [of x] ilog2_bounds_lt1 [of x] by (cases "1 \<le> x") auto

lemma ilog2_ge:
  assumes "0 < x" "2 powi k \<le> x"
  shows "k \<le> ilog2 x"
proof (rule ccontr)
  assume "\<not> k \<le> ilog2 x"
  then have "ilog2 x + 1 \<le> k" by simp
  then have "(2::rat) powi (ilog2 x + 1) \<le> 2 powi k"
    by (intro power_int_increasing) simp_all
  with ilog2_bounds [OF assms(1)] assms(2) show False by linarith
qed

lemma round_double_err:
  assumes "2 powi (- 1022) \<le> \<bar>x\<bar>"
  shows "\<bar>round_double x - x\<bar> \<le> \<bar>x\<bar> / 2 ^ 53"
proof -
  have pos: "0 < \<bar>x\<bar>"
  proof -
    have "(0::rat) < 2 powi (- 1022)" by (rule zero_less_power_int) simp
    with assms show ?thesis by linarith
  qed
  then have nz: "x \<noteq> 0" by simp
  define e where "e = ilog2 \<bar>x\<bar> - 52"
  have "- 1022 \<le> ilog2 \<bar>x\<bar>" using ilog2_ge [OF pos assms] .
  then have emax: "max (ilog2 \<bar>x\<bar> - 52) (- 1074) = e" by (simp add: e_def)
  have rd: "round_double x = of_int (round_half_even (x / 2 powi e)) * 2 powi e"
    using nz emax by (simp add: round_double_def Let_def)
  have pe: "(0::rat) < 2 powi e" by (rule zero_less_power_int) simp
  have "round_double x - x = (of_int (round_half_even (x / 2 powi e)) - x / 2 powi e) * 2 powi e"
    using pe by (simp add: rd field_simps)
  then have "\<bar>round_double x - x\<bar>
      = \<bar>of_int (round_half_even (x / 2 powi e)) - x / 2 powi e\<bar> * 2 powi e"
    using pe by (simp add: abs_mult)
  also have "\<dots> \<le> 1/2 * 2 powi e"
    using round_half_even_err [of "x / 2 powi e"] pe by (intro mult_right_mono) simp_all
  finally have err: "\<bar>round_double x - x\<bar> \<le> 2 powi e / 2" by simp
  have "(2::rat) powi (e + 52) \<le> \<bar>x\<bar>"
    using ilog2_bounds [OF pos] by (simp add: e_def)
  moreover have "(2::rat) powi (e + 52) = 2 powi e * 2 ^ 52"
    by (simp add: power_int_add)
  ultimately have "2 powi e * 2 ^ 52 \<le> \<bar>x\<bar>" by simp
  then have "2 powi e / 2 \<le> \<bar>x\<bar> / 2 ^ 53" by (simp add: field_simps)
  with err show ?thesis by linarith
qed

lemma round_double_zero: "round_double 0 = 0"
  by (simp add: round_double_def)

section \<open>Counts and percentages\<close>

lemma sentiment_pct_value:
  "sentiment_pct s dff =
     Inr (if dff = [] then 0
          else round_double
                 (round_double (of_nat (sentiment_count s dff) / of_nat (length dff)) * 100))"
  by (simp add: sentiment_pct_def total_mentions_def truediv_def float_mul_def)

lemma three_sentiments_count:
  assumes "set (map sentiment dff) \<subseteq> {''positive'', ''negative'', ''neutral''}"
  shows "sentiment_count ''positive'' dff + sentiment_count ''negative'' dff
           + sentiment_count ''neutral'' dff = length dff"
proof -
  have "\<forall>r\<in>set dff. sentiment r = ''positive'' \<or> sentiment r = ''negative''
          \<or> sentiment r = ''neutral''"
    using assms by auto
  then show ?thesis
    unfolding sentiment_count_filter by (rule three_way_count) simp_all
qed

lemma pct_sum:
  assumes "dff \<noteq> []"
    and "set (map sentiment dff) \<subseteq> {''positive'', ''negative'', ''neutral''}"
  shows "of_nat (sentiment_count ''positive'' dff) / of_nat (length dff) * 100
       + of_nat (sentiment_count ''negative'' dff) / of_nat (length dff) * 100
       + of_nat (sentiment_count ''neutral'' dff) / of_nat (length dff) * 100 = (100 :: rat)"
proof -
  let ?p = "sentiment_count ''positive'' dff"
  let ?n = "sentiment_count ''negative'' dff"
  let ?u = "sentiment_count ''neutral'' dff"
  have len: "(of_nat (length dff) :: rat) \<noteq> 0" using assms(1) by simp
  have "(of_nat ?p + of_nat ?n + of_nat ?u :: rat) = of_nat (?p + ?n + ?u)" by simp
  also have "\<dots> = of_nat (length dff)"
    using three_sentiments_count [OF assms(2)] by simp
  finally have sum: "(of_nat ?p + of_nat ?n + of_nat ?u :: rat) = of_nat (length dff)" .
  have "of_nat ?p / of_nat (length dff) * 100 + of_nat ?n / of_nat (length dff) * 100
          + of_nat ?u / of_nat (length dff) * 100
        = (of_nat ?p + of_nat ?n + of_nat ?u) / of_nat (length dff) * (100 :: rat)"
    by (simp add: add_divide_distrib distrib_right)
  also have "\<dots> = 100" using len by (simp add: sum)
  finally show ?thesis .
qed

lemma sentiment_count_le: "sentiment_count s dff \<le> length dff"
  by (simp add: sentiment_count_filter)

lemma pct_err:
  fixes c t :: nat
  assumes "c \<le> t" "0 < t" "t < 2 ^ 63"
  shows "\<bar>round_double (round_double (of_nat c / of_nat t) * 100) - of_nat c / of_nat t * 100\<bar>
           \<le> of_nat c / of_nat t * 100 / 2 ^ 51"
proof (cases "c = 0")
  case True
  then show ?thesis by (simp add: round_double_zero)
next
  case False
  define x :: rat where "x = of_nat c / of_nat t"
  define q where "q = round_double x"
  define y where "y = q * 100"
  define p where "p = round_double y"
  have tpos: "(0::rat) < of_nat t" using assms(2) by simp
  have "(of_nat t :: rat) \<le> of_nat (2 ^ 63)" using assms(3) by (simp only: of_nat_le_iff)
  then have tle: "(of_nat t :: rat) \<le> 2 ^ 63" by simp
  have "(1::rat) \<le> of_nat c" using False by (simp add: Suc_leI)
  then have "1 / of_nat t \<le> x" unfolding x_def using tpos by (simp add: divide_right_mono)
  moreover have "(1::rat) / 2 ^ 63 \<le> 1 / of_nat t"
    using tle tpos by (simp add: frac_le)
  ultimately have "1 / 2 ^ 63 \<le> x" by linarith
  define d :: rat where "d = 1 / 2 ^ 63"
  have xlo: "d \<le> x" using \<open>1 / 2 ^ 63 \<le> x\<close> by (simp only: d_def)
  have dpos: "0 < d" by (simp add: d_def)
  have small: "(2::rat) powi (- 1022) \<le> d / 2"
    by (simp add: d_def power_int_def field_simps)
  have xpos: "0 < x" using xlo dpos by linarith
  have "2 powi (- 1022) \<le> x" using small xlo dpos by linarith
  then have "2 powi (- 1022) \<le> \<bar>x\<bar>" using xpos by simp
  then have qerr: "\<bar>q - x\<bar> \<le> \<bar>x\<bar> / 2 ^ 53" unfolding q_def by (rule round_double_err)
  have qlo: "x / 2 \<le> q" using qerr xpos by (simp add: abs_if split: if_splits)
  have ylo: "d / 2 \<le> y" unfolding y_def using qlo xlo xpos dpos by linarith
  have ypos: "0 < y" using ylo dpos by linarith
  have "2 powi (- 1022) \<le> y" using small ylo by linarith
  then have "2 powi (- 1022) \<le> \<bar>y\<bar>" using ypos by simp
  then have perr: "\<bar>p - y\<bar> \<le> \<bar>y\<bar> / 2 ^ 53" unfolding p_def by (rule round_double_err)
  have "\<bar>p - x * 100\<bar> \<le> x * 100 / 2 ^ 51"
    using perr qerr xpos ypos unfolding y_def by (simp add: abs_if split: if_splits)
  then show ?thesis by (simp add: p_def y_def q_def x_def)
qed

lemma sentiment_pct_err:
  assumes "dff \<noteq> []" "length dff < 2 ^ 63"
  shows "\<exists>p. sentiment_pct s dff = Inr p
           \<and> \<bar>p - of_nat (sentiment_count s dff) / of_nat (length dff) * 100\<bar>
               \<le> of_nat (sentiment_count s dff) / of_nat (length dff) * 100 / 2 ^ 51"
  using pct_err [OF sentiment_count_le [of s dff] _ assms(2)] assms(1)
  by (simp add: sentiment_pct_value)

lemma pct_sample_values:
  "round_double (round_double (rat_of_nat 2 / rat_of_nat 3) * 100)
     = 2345624805922133 / 35184372088832"
  "round_double (round_double (rat_of_nat 1 / rat_of_nat 3) * 100)
     = 2345624805922133 / 70368744177664"
  "round_double (round_double (rat_of_nat 0 / rat_of_nat 3) * 100) = 0"
  "round_double (round_double (rat_of_nat 5 / rat_of_nat 10) * 100) = 50"
  "round_double (round_double (rat_of_nat 4 / rat_of_nat 10) * 100) = 40"
  "round_double (round_double (rat_of_nat 1 / rat_of_nat 10) * 100) = 10"
  by code_simp+

section \<open>The filter\<close>

text \<open>
  Claim C1. A row passes the filter exactly when its date lies between the two bounds,
  both included (when the range has both bounds), its source is among the selected
  sources and its search term is among the selected terms: the filtered frame is the
  frame restricted to these rows. With no source selected, or no search term selected,
  no row passes, whatever the date range.
\<close>
theorem filter_passes_iff:
  "df_filtered [lo, hi] sources products df =
     filter (\<lambda>r. lo \<le> date r \<and> date r \<le> hi \<and> source r \<in> set sources
                 \<and> search_term r \<in> set products) df
   \<and> (r \<in> set (df_filtered date_range sources products df) \<longleftrightarrow>
        r \<in> set df
        \<and> (length date_range = 2 \<longrightarrow>
              date_range ! 0 \<le> date r \<and> date r \<le> date_range ! 1)
        \<and> source r \<in> set sources \<and> search_term r \<in> set products)
   \<and> df_filtered date_range [] products df = []
   \<and> df_filtered date_range sources [] df = []"
proof -
  have "r \<in> set (df_filtered date_range sources products df) \<longleftrightarrow>
        r \<in> set df
        \<and> (length date_range = 2 \<longrightarrow>
              date_range ! 0 \<le> date r \<and> date r \<le> date_range ! 1)
        \<and> source r \<in> set sources \<and> search_term r \<in> set products"
    by (simp add: df_filtered_filter)
  moreover have "df_filtered date_range [] products df = []"
    by (simp add: df_filtered_filter)
  moreover have "df_filtered date_range sources [] df = []"
    by (simp add: df_filtered_filter)
  ultimately show ?thesis by (simp only: df_filtered_two simp_thms)
qed

theorem filter_passes_iff_witness:
  "df_filtered [739039, 739043] [''Reddit''] [''DBS app'', ''DBS Bank India''] load_data
     = [load_data ! 1, load_data ! 5]
   \<and> load_data ! 5 \<in> set (df_filtered [739039, 739043] [''Reddit'']
                               [''DBS app'', ''DBS Bank India''] load_data)
   \<and> df_filtered [739039, 739043] [] [''DBS app'', ''DBS Bank India''] load_data = []
   \<and> df_filtered [739039, 739043] [''Reddit''] [] load_data = []"
  using filter_passes_iff [of 739039 739043 "[''Reddit'']" "[''DBS app'', ''DBS Bank India'']"
      load_data "load_data ! 5" "[739039, 739043]"]
  by (simp add: load_data_rows)

text \<open>
  Claim C6. When the date range is not a pair of two dates (one bound, or none), the
  date test is skipped: the filter keeps exactly the rows whose source and search term
  are selected, whatever their dates.
\<close>
theorem partial_range_skips_date:
  "length date_range \<noteq> 2 \<Longrightarrow>
   df_filtered date_range sources products df =
     filter (\<lambda>r. source r \<in> set sources \<and> search_term r \<in> set products) df"
  by (rule df_filtered_other)

theorem partial_range_skips_date_witness:
  "length [739040 :: date] \<noteq> 2
   \<and> df_filtered [739040] [''News''] [''DBS digibank'', ''DBS debit card''] load_data
       = [load_data ! 6, load_data ! 8]"
  using partial_range_skips_date [of "[739040]" "[''News'']"
      "[''DBS digibank'', ''DBS debit card'']" load_data]
  by (simp add: load_data_rows)

text \<open>
  Claim C8. For every frame and every selection, the filtered frame is a subsequence of
  the frame: the surviving rows are rows of the frame, unchanged and in their original
  order, so there are at most as many; the empty frame filters to the empty frame.
\<close>
theorem filter_subsequence:
  "subseq (df_filtered date_range sources products df) df
   \<and> length (df_filtered date_range sources products df) \<le> length df
   \<and> df_filtered date_range sources products [] = []"
  by (simp add: df_filtered_filter)

text \<open>
  Claim C5, as stated, fails. On the sample data with only the source Reddit selected
  (every search term, the full date range), the filtered frame does not consist of the
  four rows for \<^verbatim>\<open>DBS app\<close>, \<^verbatim>\<open>DBS credit card\<close>, \<^verbatim>\<open>DBS Bank India\<close> and
  \<^verbatim>\<open>DBS loan\<close> with counts 0 positive, 4 negative and 0 neutral.
\<close>
theorem reddit_view_not_four:
  "\<not> (map search_term
          (df_filtered (default_date_range load_data) [''Reddit'']
             (default_products load_data) load_data)
        = [''DBS app'', ''DBS credit card'', ''DBS Bank India'', ''DBS loan'']
      \<and> positive_count (df_filtered (default_date_range load_data) [''Reddit'']
             (default_products load_data) load_data) = 0
      \<and> negative_count (df_filtered (default_date_range load_data) [''Reddit'']
             (default_products load_data) load_data) = 4
      \<and> neutral_count (df_filtered (default_date_range load_data) [''Reddit'']
             (default_products load_data) load_data) = 0)"
  unfolding reddit_view
  by (simp add: load_data_rows)

text \<open>
  Claim C5, amended. On the sample data with only the source Reddit selected (every
  search term, the full date range), the filtered frame has exactly the five rows with
  source Reddit, rows 1, 3, 5, 7 and 9 of the sample: the four negative rows for
  \<^verbatim>\<open>DBS app\<close>, \<^verbatim>\<open>DBS credit card\<close>, \<^verbatim>\<open>DBS Bank India\<close> and \<^verbatim>\<open>DBS loan\<close>,
  and the neutral row for \<^verbatim>\<open>DBS Bank India\<close>. Its counts are 0 positive, 4 negative
  and 1 neutral.
\<close>
theorem reddit_view_five:
  "df_filtered (default_date_range load_data) [''Reddit''] (default_products load_data)
       load_data
     = [load_data ! 1, load_data ! 3, load_data ! 5, load_data ! 7, load_data ! 9]
   \<and> map search_term
        (df_filtered (default_date_range load_data) [''Reddit'']
           (default_products load_data) load_data)
     = [''DBS app'', ''DBS credit card'', ''DBS Bank India'', ''DBS loan'', ''DBS Bank India'']
   \<and> positive_count (df_filtered (default_date_range load_data) [''Reddit'']
           (default_products load_data) load_data) = 0
   \<and> negative_count (df_filtered (default_date_range load_data) [''Reddit'']
           (default_products load_data) load_data) = 4
   \<and> neutral_count (df_filtered (default_date_range load_data) [''Reddit'']
           (default_products load_data) load_data) = 1"
  unfolding reddit_view positive_count_def negative_count_def neutral_count_def
    sentiment_count_filter
  by (simp add: load_data_rows)

section \<open>The metric cards, verified\<close>

lemma first_three_days:
  "df_filtered [739038, 739040] (default_sources load_data) (default_products load_data)
       load_data = [load_data ! 0, load_data ! 1, load_data ! 2]"
  unfolding load_data_defaults df_filtered_two
  by (simp add: load_data_rows)

lemma first_three_days_counts:
  "length [load_data ! 0, load_data ! 1, load_data ! 2] = 3"
  "sentiment_count ''positive'' [load_data ! 0, load_data ! 1, load_data ! 2] = 2"
  "sentiment_count ''negative'' [load_data ! 0, load_data ! 1, load_data ! 2] = 1"
  "sentiment_count ''neutral'' [load_data ! 0, load_data ! 1, load_data ! 2] = 0"
  by (simp_all add: sentiment_count_filter load_data_rows)

lemma first_three_days_pct:
  "sentiment_pct ''positive'' [load_data ! 0, load_data ! 1, load_data ! 2]
     = Inr (2345624805922133 / 35184372088832)"
  "sentiment_pct ''negative'' [load_data ! 0, load_data ! 1, load_data ! 2]
     = Inr (2345624805922133 / 70368744177664)"
  "sentiment_pct ''neutral'' [load_data ! 0, load_data ! 1, load_data ! 2] = Inr 0"
  unfolding sentiment_pct_value first_three_days_counts
  by (simp_all only: pct_sample_values list.distinct if_False)

text \<open>
  Claim C3. For each of the three sentiments the card shows the number of filtered rows
  with that sentiment and the percentage count / total * 100, computed in floats, where
  total is the number of filtered rows. A percentage is always a value, never a division
  error. With no filtered row, every count is 0 and every percentage is 0. With at least
  one row (and fewer than 2^63, the most that \<^verbatim>\<open>len\<close> returns), each percentage is
  the exact count / total * 100 up to the rounding of the two float operations, a
  relative error of at most 2^-51; when moreover every row's sentiment is one of the
  three, the three percentages sum to 100 up to this rounding: their sum differs from
  100 by at most 100 / 2^51.
\<close>
theorem count_by_sentiment:
  "positive_count dff = length (filter (\<lambda>r. sentiment r = ''positive'') dff)
   \<and> negative_count dff = length (filter (\<lambda>r. sentiment r = ''negative'') dff)
   \<and> neutral_count dff = length (filter (\<lambda>r. sentiment r = ''neutral'') dff)
   \<and> total_mentions dff = length dff
   \<and> positive_pct dff =
        Inr (if total_mentions dff = 0 then 0
             else round_double (round_double
                    (of_nat (positive_count dff) / of_nat (total_mentions dff)) * 100))
   \<and> negative_pct dff =
        Inr (if total_mentions dff = 0 then 0
             else round_double (round_double
                    (of_nat (negative_count dff) / of_nat (total_mentions dff)) * 100))
   \<and> neutral_pct dff =
        Inr (if total_mentions dff = 0 then 0
             else round_double (round_double
                    (of_nat (neutral_count dff) / of_nat (total_mentions dff)) * 100))
   \<and> (total_mentions dff = 0 \<longrightarrow>
         positive_count dff = 0 \<and> negative_count dff = 0 \<and> neutral_count dff = 0
         \<and> positive_pct dff = Inr 0 \<and> negative_pct dff = Inr 0 \<and> neutral_pct dff = Inr 0)
   \<and> (0 < total_mentions dff \<and> total_mentions dff < 2 ^ 63 \<longrightarrow>
         (\<exists>p n u. positive_pct dff = Inr p \<and> negative_pct dff = Inr n
            \<and> neutral_pct dff = Inr u
            \<and> \<bar>p - of_nat (positive_count dff) / of_nat (total_mentions dff) * 100\<bar>
                \<le> of_nat (positive_count dff) / of_nat (total_mentions dff) * 100 / 2 ^ 51
            \<and> \<bar>n - of_nat (negative_count dff) / of_nat (total_mentions dff) * 100\<bar>
                \<le> of_nat (negative_count dff) / of_nat (total_mentions dff) * 100 / 2 ^ 51
            \<and> \<bar>u - of_nat (neutral_count dff) / of_nat (total_mentions dff) * 100\<bar>
                \<le> of_nat (neutral_count dff) / of_nat (total_mentions dff) * 100 / 2 ^ 51
            \<and> (set (map sentiment dff) \<subseteq> {''positive'', ''negative'', ''neutral''} \<longrightarrow>
                  \<bar>p + n + u - 100\<bar> \<le> 100 / 2 ^ 51)))"
proof -
  have counts:
    "positive_count dff = length (filter (\<lambda>r. sentiment r = ''positive'') dff)"
    "negative_count dff = length (filter (\<lambda>r. sentiment r = ''negative'') dff)"
    "neutral_count dff = length (filter (\<lambda>r. sentiment r = ''neutral'') dff)"
    by (simp_all add: positive_count_def negative_count_def neutral_count_def
          sentiment_count_filter)
  have total: "total_mentions dff = length dff"
    by (simp add: total_mentions_def)
  have pcts:
    "positive_pct dff =
        Inr (if total_mentions dff = 0 then 0
             else round_double (round_double
                    (of_nat (positive_count dff) / of_nat (total_mentions dff)) * 100))"
    "negative_pct dff =
        Inr (if total_mentions dff = 0 then 0
             else round_double (round_double
                    (of_nat (negative_count dff) / of_nat (total_mentions dff)) * 100))"
    "neutral_pct dff =
        Inr (if total_mentions dff = 0 then 0
             else round_double (round_double
                    (of_nat (neutral_count dff) / of_nat (total_mentions dff)) * 100))"
    by (simp_all add: positive_pct_def negative_pct_def neutral_pct_def
          positive_count_def negative_count_def neutral_count_def
          sentiment_pct_value total_mentions_def)
  have empty: "total_mentions dff = 0 \<longrightarrow>
         positive_count dff = 0 \<and> negative_count dff = 0 \<and> neutral_count dff = 0
         \<and> positive_pct dff = Inr 0 \<and> negative_pct dff = Inr 0 \<and> neutral_pct dff = Inr 0"
  proof
    assume "total_mentions dff = 0"
    then have "dff = []" by (simp add: total_mentions_def)
    then show "positive_count dff = 0 \<and> negative_count dff = 0 \<and> neutral_count dff = 0
         \<and> positive_pct dff = Inr 0 \<and> negative_pct dff = Inr 0 \<and> neutral_pct dff = Inr 0"
      by (simp add: positive_count_def negative_count_def neutral_count_def
            positive_pct_def negative_pct_def neutral_pct_def
            sentiment_count_filter sentiment_pct_value)
  qed
  have close: "0 < total_mentions dff \<and> total_mentions dff < 2 ^ 63 \<longrightarrow>
         (\<exists>p n u. positive_pct dff = Inr p \<and> negative_pct dff = Inr n
            \<and> neutral_pct dff = Inr u
            \<and> \<bar>p - of_nat (positive_count dff) / of_nat (total_mentions dff) * 100\<bar>
                \<le> of_nat (positive_count dff) / of_nat (total_mentions dff) * 100 / 2 ^ 51
            \<and> \<bar>n - of_nat (negative_count dff) / of_nat (total_mentions dff) * 100\<bar>
                \<le> of_nat (negative_count dff) / of_nat (total_mentions dff) * 100 / 2 ^ 51
            \<and> \<bar>u - of_nat (neutral_count dff) / of_nat (total_mentions dff) * 100\<bar>
                \<le> of_nat (neutral_count dff) / of_nat (total_mentions dff) * 100 / 2 ^ 51
            \<and> (set (map sentiment dff) \<subseteq> {''positive'', ''negative'', ''neutral''} \<longrightarrow>
                  \<bar>p + n + u - 100\<bar> \<le> 100 / 2 ^ 51))"
  proof
    assume a: "0 < total_mentions dff \<and> total_mentions dff < 2 ^ 63"
    then have ne: "dff \<noteq> []" and lt: "length dff < 2 ^ 63"
      by (simp_all add: total_mentions_def)
    let ?e = "\<lambda>s. (of_nat (sentiment_count s dff) / of_nat (length dff) * 100 :: rat)"
    obtain p where p: "sentiment_pct ''positive'' dff = Inr p"
        "\<bar>p - ?e ''positive''\<bar> \<le> ?e ''positive'' / 2 ^ 51"
      using sentiment_pct_err [OF ne lt, of "''positive''"] by blast
    obtain n where n: "sentiment_pct ''negative'' dff = Inr n"
        "\<bar>n - ?e ''negative''\<bar> \<le> ?e ''negative'' / 2 ^ 51"
      using sentiment_pct_err [OF ne lt, of "''negative''"] by blast
    obtain u where u: "sentiment_pct ''neutral'' dff = Inr u"
        "\<bar>u - ?e ''neutral''\<bar> \<le> ?e ''neutral'' / 2 ^ 51"
      using sentiment_pct_err [OF ne lt, of "''neutral''"] by blast
    have sum: "set (map sentiment dff) \<subseteq> {''positive'', ''negative'', ''neutral''} \<longrightarrow>
                  \<bar>p + n + u - 100\<bar> \<le> 100 / 2 ^ 51"
    proof
      assume wf: "set (map sentiment dff) \<subseteq> {''positive'', ''negative'', ''neutral''}"
      have "?e ''positive'' + ?e ''negative'' + ?e ''neutral'' = 100"
        by (rule pct_sum [OF ne wf])
      then show "\<bar>p + n + u - 100\<bar> \<le> 100 / 2 ^ 51"
        using p(2) n(2) u(2) by (simp add: abs_if split: if_splits)
    qed
    show "\<exists>p n u. positive_pct dff = Inr p \<and> negative_pct dff = Inr n
            \<and> neutral_pct dff = Inr u
            \<and> \<bar>p - of_nat (positive_count dff) / of_nat (total_mentions dff) * 100\<bar>
                \<le> of_nat (positive_count dff) / of_nat (total_mentions dff) * 100 / 2 ^ 51
            \<and> \<bar>n - of_nat (negative_count dff) / of_nat (total_mentions dff) * 100\<bar>
                \<le> of_nat (negative_count dff) / of_nat (total_mentions dff) * 100 / 2 ^ 51
            \<and> \<bar>u - of_nat (neutral_count dff) / of_nat (total_mentions dff) * 100\<bar>
                \<le> of_nat (neutral_count dff) / of_nat (total_mentions dff) * 100 / 2 ^ 51
            \<and> (set (map sentiment dff) \<subseteq> {''positive'', ''negative'', ''neutral''} \<longrightarrow>
                  \<bar>p + n + u - 100\<bar> \<le> 100 / 2 ^ 51)"
      unfolding positive_pct_def negative_pct_def neutral_pct_def
        positive_count_def negative_count_def neutral_count_def total_mentions_def
      using p n u sum by blast
  qed
  from counts total pcts empty close show ?thesis by blast
qed

theorem count_by_sentiment_witness:
  "0 < total_mentions [load_data ! 0, load_data ! 1, load_data ! 2]
   \<and> total_mentions [load_data ! 0, load_data ! 1, load_data ! 2] < 2 ^ 63
   \<and> set (map sentiment [load_data ! 0, load_data ! 1, load_data ! 2])
       \<subseteq> {''positive'', ''negative'', ''neutral''}
   \<and> df_filtered [739038, 739040] (default_sources load_data) (default_products load_data)
         load_data = [load_data ! 0, load_data ! 1, load_data ! 2]
   \<and> positive_pct [load_data ! 0, load_data ! 1, load_data ! 2]
       = Inr (2345624805922133 / 35184372088832)
   \<and> negative_pct [load_data ! 0, load_data ! 1, load_data ! 2]
       = Inr (2345624805922133 / 70368744177664)
   \<and> neutral_pct [load_data ! 0, load_data ! 1, load_data ! 2] = Inr 0
   \<and> \<bar>2345624805922133 / 35184372088832 + 2345624805922133 / 70368744177664 + 0 - 100\<bar>
       \<le> (100 / 2 ^ 51 :: rat)
   \<and> (2345624805922133 / 35184372088832 + 2345624805922133 / 70368744177664 + 0 :: rat)
       = 100 - 1 / 2 ^ 46
   \<and> total_mentions [] = 0 \<and> positive_pct [] = Inr 0 \<and> negative_pct [] = Inr 0
   \<and> neutral_pct [] = Inr 0"
proof -
  let ?v = "[load_data ! 0, load_data ! 1, load_data ! 2]"
  have tot: "0 < total_mentions ?v" "total_mentions ?v < 2 ^ 63"
    by (simp_all add: total_mentions_def)
  have wf: "set (map sentiment ?v) \<subseteq> {''positive'', ''negative'', ''neutral''}"
    by (simp add: load_data_rows)
  have vals: "positive_pct ?v = Inr (2345624805922133 / 35184372088832)"
    "negative_pct ?v = Inr (2345624805922133 / 70368744177664)"
    "neutral_pct ?v = Inr 0"
    by (simp_all only: positive_pct_def negative_pct_def neutral_pct_def first_three_days_pct)
  obtain p n u where pnu: "positive_pct ?v = Inr p" "negative_pct ?v = Inr n"
      "neutral_pct ?v = Inr u" "\<bar>p + n + u - 100\<bar> \<le> 100 / 2 ^ 51"
    using count_by_sentiment [of ?v] tot wf by blast
  have "p = 2345624805922133 / 35184372088832" "n = 2345624805922133 / 70368744177664" "u = 0"
    using pnu(1-3) [unfolded vals] by simp_all
  with pnu(4)
  have bound: "\<bar>2345624805922133 / 35184372088832 + 2345624805922133 / 70368744177664
                 + 0 - 100\<bar> \<le> (100 / 2 ^ 51 :: rat)"
    by simp
  have exact: "(2345624805922133 / 35184372088832 + 2345624805922133 / 70368744177664
                 + 0 :: rat) = 100 - 1 / 2 ^ 46"
    by simp
  have empty: "total_mentions [] = 0 \<and> positive_pct [] = Inr 0 \<and> negative_pct [] = Inr 0
      \<and> neutral_pct [] = Inr 0"
    using count_by_sentiment [of "[]"] by (simp add: total_mentions_def)
  from tot wf first_three_days vals bound exact empty show ?thesis
    by (simp only: simp_thms)
qed

text \<open>
  Claim C10. Every row of the loaded data has one of the sentiments positive, negative
  and neutral (three different strings), so for every selection of date range, sources
  and search terms the positive, negative and neutral counts of the filtered frame add
  up to its total.
\<close>
theorem sentiment_counts_consistent:
  "set (map sentiment load_data) \<subseteq> {''positive'', ''negative'', ''neutral''}
   \<and> positive_count (df_filtered date_range sources products load_data)
     + negative_count (df_filtered date_range sources products load_data)
     + neutral_count (df_filtered date_range sources products load_data)
     = total_mentions (df_filtered date_range sources products load_data)"
proof -
  let ?v = "df_filtered date_range sources products load_data"
  have "set ?v \<subseteq> set load_data" by (simp add: df_filtered_filter)
  then have "set (map sentiment ?v) \<subseteq> set (map sentiment load_data)" by auto
  with load_data_sentiments
  have "set (map sentiment ?v) \<subseteq> {''positive'', ''negative'', ''neutral''}" by blast
  then show ?thesis
    using load_data_sentiments
    by (simp only: positive_count_def negative_count_def neutral_count_def
          total_mentions_def three_sentiments_count simp_thms)
qed

section \<open>Top mentions, verified\<close>

lemma top_k_max:
  "top_k_by_polarity records s k Dmax =
     nlargest k polarity (filter (\<lambda>r. sentiment r = s) records)"
  by (simp add: top_k_by_polarity_def qualifying)

lemma top_k_min:
  "top_k_by_polarity records s k Dmin =
     nsmallest k polarity (filter (\<lambda>r. sentiment r = s) records)"
  by (simp add: top_k_by_polarity_def qualifying)

lemma positive_posts_sample:
  "top_k_by_polarity load_data ''positive'' 3 Dmax = [load_data ! 8, load_data ! 0, load_data ! 6]"
  unfolding top_k_max nlargest_def by (simp add: load_data_rows)

text \<open>
  Claim C2. The top-k selection first keeps the rows with the given sentiment and then
  returns the k of them with the largest polarity, in descending order of polarity
  (direction max, the page's positive list), or the k with the smallest polarity, in
  ascending order (direction min, the page's negative list). Rows of equal polarity stay
  in their original order, the earlier ones being preferred. When fewer than k rows
  qualify all of them are returned: the result has min(k, number of qualifying rows) rows.
\<close>
theorem top_k_by_polarity_spec:
  "positive_posts records = top_k_by_polarity records ''positive'' 3 Dmax
   \<and> negative_posts records = top_k_by_polarity records ''negative'' 3 Dmin
   \<and> length (top_k_by_polarity records s k d)
     = min k (length (filter (\<lambda>r. sentiment r = s) records))
   \<and> mset (top_k_by_polarity records s k d)
       \<subseteq># mset (filter (\<lambda>r. sentiment r = s) records)
   \<and> prefix (filter (\<lambda>r. polarity r = p) (top_k_by_polarity records s k d))
        (filter (\<lambda>r. polarity r = p) (filter (\<lambda>r. sentiment r = s) records))
   \<and> (d = Dmax \<longrightarrow>
        sorted_wrt (\<lambda>a b. polarity b \<le> polarity a) (top_k_by_polarity records s k d)
        \<and> (y \<in> set (top_k_by_polarity records s k d)
             \<and> x \<in># mset (filter (\<lambda>r. sentiment r = s) records)
                      - mset (top_k_by_polarity records s k d)
            \<longrightarrow> polarity x \<le> polarity y))
   \<and> (d = Dmin \<longrightarrow>
        sorted_wrt (\<lambda>a b. polarity a \<le> polarity b) (top_k_by_polarity records s k d)
        \<and> (y \<in> set (top_k_by_polarity records s k d)
             \<and> x \<in># mset (filter (\<lambda>r. sentiment r = s) records)
                      - mset (top_k_by_polarity records s k d)
            \<longrightarrow> polarity y \<le> polarity x))"
proof (cases d)
  case Dmax
  have inst: "positive_posts records = top_k_by_polarity records ''positive'' 3 Dmax"
    "negative_posts records = top_k_by_polarity records ''negative'' 3 Dmin"
    by (simp_all add: positive_posts_def negative_posts_def top_k_by_polarity_def)
  let ?q = "filter (\<lambda>r. sentiment r = s) records"
  have "length (nlargest k polarity ?q) = min k (length ?q)"
    by (rule nlargest_length)
  moreover have "mset (nlargest k polarity ?q) \<subseteq># mset ?q"
    by (rule nlargest_mset)
  moreover have "prefix (filter (\<lambda>r. polarity r = p) (nlargest k polarity ?q))
                   (filter (\<lambda>r. polarity r = p) ?q)"
    by (rule nlargest_stable)
  moreover have "sorted_wrt (\<lambda>a b. polarity b \<le> polarity a) (nlargest k polarity ?q)"
    by (rule nlargest_sorted)
  moreover have "y \<in> set (nlargest k polarity ?q)
       \<and> x \<in># mset ?q - mset (nlargest k polarity ?q) \<longrightarrow> polarity x \<le> polarity y"
    using nlargest_rest [of x ?q k polarity y] by blast
  ultimately show ?thesis using Dmax by (simp only: inst top_k_max) simp
next
  case Dmin
  have inst: "positive_posts records = top_k_by_polarity records ''positive'' 3 Dmax"
    "negative_posts records = top_k_by_polarity records ''negative'' 3 Dmin"
    by (simp_all add: positive_posts_def negative_posts_def top_k_by_polarity_def)
  let ?q = "filter (\<lambda>r. sentiment r = s) records"
  have "length (nsmallest k polarity ?q) = min k (length ?q)"
    by (rule nsmallest_length)
  moreover have "mset (nsmallest k polarity ?q) \<subseteq># mset ?q"
    by (rule nsmallest_mset)
  moreover have "prefix (filter (\<lambda>r. polarity r = p) (nsmallest k polarity ?q))
                   (filter (\<lambda>r. polarity r = p) ?q)"
    by (rule nsmallest_stable)
  moreover have "sorted_wrt (\<lambda>a b. polarity a \<le> polarity b) (nsmallest k polarity ?q)"
    by (rule nsmallest_sorted)
  moreover have "y \<in> set (nsmallest k polarity ?q)
       \<and> x \<in># mset ?q - mset (nsmallest k polarity ?q) \<longrightarrow> polarity y \<le> polarity x"
    using nsmallest_rest [of x ?q k polarity y] by blast
  ultimately show ?thesis using Dmin by (simp only: inst top_k_min) simp
qed

theorem top_k_by_polarity_spec_witness:
  "positive_posts load_data = [load_data ! 8, load_data ! 0, load_data ! 6]
   \<and> map polarity (positive_posts load_data) = [9/10, 8/10, 8/10]
   \<and> length (positive_posts load_data)
       = min 3 (length (filter (\<lambda>r. sentiment r = ''positive'') load_data))
   \<and> load_data ! 8 \<in> set (positive_posts load_data)
   \<and> load_data ! 4 \<in># mset (filter (\<lambda>r. sentiment r = ''positive'') load_data)
                        - mset (positive_posts load_data)
   \<and> polarity (load_data ! 4) \<le> polarity (load_data ! 8)"
proof -
  note spec = top_k_by_polarity_spec [of load_data "''positive''" 3 Dmax "8/10"
      "load_data ! 8" "load_data ! 4"]
  have inst: "positive_posts load_data = top_k_by_polarity load_data ''positive'' 3 Dmax"
    using spec by blast
  have len: "length (positive_posts load_data)
       = min 3 (length (filter (\<lambda>r. sentiment r = ''positive'') load_data))"
    using spec by (simp only: inst)
  have val: "positive_posts load_data = [load_data ! 8, load_data ! 0, load_data ! 6]"
    unfolding inst by (rule positive_posts_sample)
  have pol: "map polarity (positive_posts load_data) = [9/10, 8/10, 8/10]"
    unfolding val by (simp add: load_data_rows)
  have y: "load_data ! 8 \<in> set (positive_posts load_data)"
    unfolding val by simp
  have x: "load_data ! 4 \<in># mset (filter (\<lambda>r. sentiment r = ''positive'') load_data)
                        - mset (positive_posts load_data)"
    unfolding val by (simp add: load_data_rows)
  have le: "polarity (load_data ! 4) \<le> polarity (load_data ! 8)"
    using spec x y by (simp only: inst [symmetric])
  from val pol len y x le show ?thesis by (simp only: simp_thms)
qed

text \<open>
  Claim C7. On the full sample data the three top negative mentions are the rows with
  polarity -0.7, -0.6 and -0.5, in this order (rows 1, 5 and 3 of the sample); the
  default selection of the page filters nothing out, so the page shows these.
\<close>
theorem top_negative_sample:
  "top_k_by_polarity load_data ''negative'' 3 Dmin
     = [load_data ! 1, load_data ! 5, load_data ! 3]
   \<and> map polarity (top_k_by_polarity load_data ''negative'' 3 Dmin) = [-7/10, -6/10, -5/10]
   \<and> negative_posts load_data = top_k_by_polarity load_data ''negative'' 3 Dmin
   \<and> negative_posts (df_filtered (default_date_range load_data) (default_sources load_data)
         (default_products load_data) load_data) = negative_posts load_data"
  unfolding default_view negative_posts_def top_k_min qualifying nsmallest_def
  by (simp add: load_data_rows)

section \<open>The group-by tables, verified\<close>

lemma groupby_size_table:
  fixes key :: "'a \<Rightarrow> ('b::linorder \<times> 'c::linorder)"
  shows "distinct (map fst (groupby_size key df))
   \<and> set (map fst (groupby_size key df)) = key ` set df
   \<and> (\<forall>row\<in>set (groupby_size key df).
         snd row = length (filter (\<lambda>r. key r = fst row) df) \<and> 0 < snd row)
   \<and> sorted_wrt (\<lambda>a b. fst a < fst b \<or> (fst a = fst b \<and> snd a < snd b))
        (map fst (groupby_size key df))
   \<and> sum_list (map snd (groupby_size key df)) = length df"
proof -
  have "distinct (map fst (groupby_size key df))"
    by (simp add: groupby_size_keys)
  moreover have "set (map fst (groupby_size key df)) = key ` set df"
    by (simp add: groupby_size_keys)
  moreover have "\<forall>row\<in>set (groupby_size key df).
         snd row = length (filter (\<lambda>r. key r = fst row) df) \<and> 0 < snd row"
  proof
    fix row assume row: "row \<in> set (groupby_size key df)"
    then have "(fst row, snd row) \<in> set (groupby_size key df)" by simp
    then have "snd row = length (filter (\<lambda>r. key r = fst row) df)"
      by (simp only: groupby_size_row)
    with groupby_size_pos [OF row]
    show "snd row = length (filter (\<lambda>r. key r = fst row) df) \<and> 0 < snd row" by simp
  qed
  moreover note groupby_size_lex [of key df] groupby_size_sum [of key df]
  ultimately show ?thesis by blast
qed

text \<open>
  Claim C4. The table by date and sentiment and the table by search term and sentiment
  each have exactly one row per pair of values that occurs in the filtered frame, with
  the number of frame rows carrying that pair, which is never 0; the rows are in
  ascending order of the date (respectively search term) and, for equal ones, of the
  sentiment; the counts of a table add up to the number of filtered rows. With no
  filtered row the page computes no table.
\<close>
theorem groupby_tables:
  "(dff = [] \<longrightarrow> daily_sentiment dff = None \<and> product_sentiment dff = None)
   \<and> (dff \<noteq> [] \<longrightarrow>
     (\<exists>rows. daily_sentiment dff = Some rows
        \<and> distinct (map fst rows)
        \<and> set (map fst rows) = (\<lambda>r. (date r, sentiment r)) ` set dff
        \<and> (\<forall>row\<in>set rows.
              snd row = length (filter (\<lambda>r. (date r, sentiment r) = fst row) dff)
              \<and> 0 < snd row)
        \<and> sorted_wrt (\<lambda>a b. fst a < fst b \<or> (fst a = fst b \<and> snd a < snd b))
             (map fst rows)
        \<and> sum_list (map snd rows) = length dff)
   \<and> (\<exists>rows. product_sentiment dff = Some rows
        \<and> distinct (map fst rows)
        \<and> set (map fst rows) = (\<lambda>r. (search_term r, sentiment r)) ` set dff
        \<and> (\<forall>row\<in>set rows.
              snd row = length (filter (\<lambda>r. (search_term r, sentiment r) = fst row) dff)
              \<and> 0 < snd row)
        \<and> sorted_wrt (\<lambda>a b. fst a < fst b \<or> (fst a = fst b \<and> snd a < snd b))
             (map fst rows)
        \<and> sum_list (map snd rows) = length dff))"
proof (cases "dff = []")
  case True
  then show ?thesis by (simp add: daily_sentiment_def product_sentiment_def)
next
  case False
  have d: "daily_sentiment dff = Some (groupby_size (\<lambda>r. (date r, sentiment r)) dff)"
    using False by (simp add: daily_sentiment_def)
  have p: "product_sentiment dff = Some (groupby_size (\<lambda>r. (search_term r, sentiment r)) dff)"
    using False by (simp add: product_sentiment_def)
  show ?thesis
    using False groupby_size_table [of "\<lambda>r. (date r, sentiment r)" dff]
      groupby_size_table [of "\<lambda>r. (search_term r, sentiment r)" dff]
    unfolding d p by blast
qed

theorem groupby_tables_witness:
  "load_data \<noteq> []
   \<and> daily_sentiment load_data =
       Some [((739038, ''positive''), 1), ((739039, ''negative''), 1),
             ((739040, ''positive''), 1), ((739041, ''negative''), 1),
             ((739042, ''positive''), 1), ((739043, ''negative''), 1),
             ((739044, ''positive''), 1), ((739045, ''negative''), 1),
             ((739046, ''positive''), 1), ((739047, ''neutral''), 1)]
   \<and> product_sentiment load_data =
       Some [((''DBS Bank India'', ''negative''), 1), ((''DBS Bank India'', ''neutral''), 1),
             ((''DBS Bank India'', ''positive''), 1), ((''DBS app'', ''negative''), 1),
             ((''DBS credit card'', ''negative''), 1), ((''DBS debit card'', ''positive''), 1),
             ((''DBS digibank'', ''positive''), 1), ((''DBS loan'', ''negative''), 1),
             ((''DBS mobile banking'', ''positive''), 1),
             ((''DBS net banking'', ''positive''), 1)]
   \<and> sum_list (map snd (the (daily_sentiment load_data))) = length load_data
   \<and> sum_list (map snd (the (product_sentiment load_data))) = length load_data
   \<and> daily_sentiment [] = None \<and> product_sentiment [] = None"
proof -
  have ne: "load_data \<noteq> []"
    by (simp add: load_data_rows)
  have d: "daily_sentiment load_data =
       Some [((739038, ''positive''), 1), ((739039, ''negative''), 1),
             ((739040, ''positive''), 1), ((739041, ''negative''), 1),
             ((739042, ''positive''), 1), ((739043, ''negative''), 1),
             ((739044, ''positive''), 1), ((739045, ''negative''), 1),
             ((739046, ''positive''), 1), ((739047, ''neutral''), 1)]"
    by (simp add: daily_sentiment_def groupby_size_def load_data_rows)
  have p: "product_sentiment load_data =
       Some [((''DBS Bank India'', ''negative''), 1), ((''DBS Bank India'', ''neutral''), 1),
             ((''DBS Bank India'', ''positive''), 1), ((''DBS app'', ''negative''), 1),
             ((''DBS credit card'', ''negative''), 1), ((''DBS debit card'', ''positive''), 1),
             ((''DBS digibank'', ''positive''), 1), ((''DBS loan'', ''negative''), 1),
             ((''DBS mobile banking'', ''positive''), 1),
             ((''DBS net banking'', ''positive''), 1)]"
    by (simp add: product_sentiment_def groupby_size_def load_data_rows)
  have e: "daily_sentiment [] = None \<and> product_sentiment [] = None"
    using groupby_tables [of "[]"] by simp
  have s: "sum_list (map snd (the (daily_sentiment load_data))) = length load_data
      \<and> sum_list (map snd (the (product_sentiment load_data))) = length load_data"
    using groupby_tables [of load_data] ne by auto
  from ne d p e s show ?thesis by (simp only: simp_thms)
qed

end
